theory Spec2Isabelle
  imports Main "HOL-Library.Word"
begin

section \<open>JNI types, values and handles\<close>

text \<open>
  The types of \<^verbatim>\<open>jni.h\<close> that the header works with. \<open>JRef n\<close> is a JNI reference
  type (\<^verbatim>\<open>jobject\<close> and the types derived from it, such as \<^verbatim>\<open>jstring\<close> or
  \<^verbatim>\<open>jclass\<close>), named by its C++ name. \<^verbatim>\<open>jboolean\<close> is an unsigned 8-bit integer,
  \<^verbatim>\<open>jchar\<close> an unsigned 16-bit one; \<^verbatim>\<open>jbyte\<close>, \<^verbatim>\<open>jshort\<close>, \<^verbatim>\<open>jint\<close> and \<^verbatim>\<open>jlong\<close>
  are signed.
\<close>

datatype jtype =
  JVoid | JBoolean | JByte | JChar | JShort | JInt | JLong | JFloat | JDouble | JRef string

text \<open>
  A value of one of these types. Floating-point values are kept as their IEEE bit
  patterns: the header never computes with them. A reference is a handle, \<open>None\<close> being
  \<^verbatim>\<open>nullptr\<close>.
\<close>

datatype jvalue =
  VVoid
| VBoolean "8 word"
| VByte "8 word"
| VChar "16 word"
| VShort "16 word"
| VInt "32 word"
| VLong "64 word"
| VFloat "32 word"
| VDouble "64 word"
| VRef "nat option"

type_synonym jclass = nat
type_synonym jmethodID = nat

text \<open>
  \<^verbatim>\<open>JNIEnv\<close>: the functions of the foreign runtime the header calls. The runtime has a
  state of its own (\<open>'w\<close>) that every call may read and change. \<^verbatim>\<open>FindClass\<close> and
  \<^verbatim>\<open>GetStaticMethodID\<close> answer \<open>None\<close> for \<^verbatim>\<open>nullptr\<close>.
\<close>

record 'w JNIEnv =
  FindClass :: "string \<Rightarrow> 'w \<Rightarrow> jclass option \<times> 'w"
  GetStaticMethodID :: "jclass \<Rightarrow> string \<Rightarrow> string \<Rightarrow> 'w \<Rightarrow> jmethodID option \<times> 'w"
  CallStaticObjectMethod :: "jclass \<Rightarrow> jmethodID \<Rightarrow> jvalue list \<Rightarrow> 'w \<Rightarrow> nat option \<times> 'w"
  CallStaticVoidMethod :: "jclass \<Rightarrow> jmethodID \<Rightarrow> jvalue list \<Rightarrow> 'w \<Rightarrow> 'w"
  CallStaticBooleanMethod :: "jclass \<Rightarrow> jmethodID \<Rightarrow> jvalue list \<Rightarrow> 'w \<Rightarrow> 8 word \<times> 'w"
  CallStaticIntMethod :: "jclass \<Rightarrow> jmethodID \<Rightarrow> jvalue list \<Rightarrow> 'w \<Rightarrow> 32 word \<times> 'w"
  CallStaticLongMethod :: "jclass \<Rightarrow> jmethodID \<Rightarrow> jvalue list \<Rightarrow> 'w \<Rightarrow> 64 word \<times> 'w"
  CallStaticFloatMethod :: "jclass \<Rightarrow> jmethodID \<Rightarrow> jvalue list \<Rightarrow> 'w \<Rightarrow> 32 word \<times> 'w"
  CallStaticDoubleMethod :: "jclass \<Rightarrow> jmethodID \<Rightarrow> jvalue list \<Rightarrow> 'w \<Rightarrow> 64 word \<times> 'w"

text \<open>
  What the header includes from \<^verbatim>\<open>../core/\<close> and from the C++ implementation, none of
  it in this file of the repository; all of it is a parameter of the model. \<open>'c\<close> is the
  universe of C++ types given as template arguments.
  \<^item> \<open>getCurrentJNIEnvironment\<close> (\<^verbatim>\<open>JNIEnvironment.hpp\<close>) hands out the environment of the
    current thread;
  \<^item> \<open>getJavaMethodSignature\<close> (\<^verbatim>\<open>JavaMethodSignature.hpp\<close>) is a function of the return
    type and the argument types only;
  \<^item> \<open>reportInternalError\<close> (\<^verbatim>\<open>ErrorHandler.hpp\<close>) takes the message;
  \<^item> \<open>ToJavaType_Type\<close> and \<open>ToJavaType_CallReturnType\<close> are the two member types of
    \<^verbatim>\<open>ToJavaType<T>\<close> (\<^verbatim>\<open>ToJavaType.hpp\<close>);
  \<^item> \<open>className\<close> is \<^verbatim>\<open>JavaClassType::className()\<close>;
  \<^item> \<open>fp_convert\<close> is the implementation's conversion between a floating-point type and
    another arithmetic type.
\<close>

record ('c, 'w) externals =
  getCurrentJNIEnvironment :: "'w \<Rightarrow> 'w JNIEnv \<times> 'w"
  getJavaMethodSignature :: "'c \<Rightarrow> 'c list \<Rightarrow> string"
  reportInternalError :: "string \<Rightarrow> 'w \<Rightarrow> 'w"
  ToJavaType_Type :: "'c \<Rightarrow> jtype"
  ToJavaType_CallReturnType :: "'c \<Rightarrow> jtype"
  className :: "'c \<Rightarrow> string"
  fp_convert :: "jtype \<Rightarrow> jvalue \<Rightarrow> jvalue"

section \<open>The calls a body makes\<close>

text \<open>
  The seven \<^verbatim>\<open>CallStatic<Kind>Method\<close> functions, and the calls that leave the body of
  \<^verbatim>\<open>callStaticMethod\<close>, recorded in program order with their arguments.
\<close>

datatype call_variant =
  ObjectMethod | VoidMethod | BooleanMethod | IntMethod | LongMethod | FloatMethod | DoubleMethod

datatype event =
  is_EGetEnv: EGetCurrentJNIEnvironment
| is_ESignature: EGetJavaMethodSignature string
| is_EFindClass: EFindClass string
| is_EGetStaticMethodID: EGetStaticMethodID jclass string string
| is_ECall: ECall call_variant jclass jmethodID "jvalue list"
| is_EReport: EReportInternalError string

section \<open>C++ library and language pieces\<close>

text \<open>
  \<^verbatim>\<open>std::string::c_str()\<close> read as a C string: it ends at the first NUL character.
\<close>

definition c_str :: "string \<Rightarrow> string" where
  "c_str s = takeWhile (\<lambda>c. c \<noteq> CHR 0x00) s"

text \<open>\<^verbatim>\<open>T()\<close>: value initialisation, zero for an arithmetic type and null for a pointer.\<close>

fun default_value :: "jtype \<Rightarrow> jvalue" where
  "default_value JVoid = VVoid"
| "default_value JBoolean = VBoolean 0"
| "default_value JByte = VByte 0"
| "default_value JChar = VChar 0"
| "default_value JShort = VShort 0"
| "default_value JInt = VInt 0"
| "default_value JLong = VLong 0"
| "default_value JFloat = VFloat 0"
| "default_value JDouble = VDouble 0"
| "default_value (JRef n) = VRef None"

fun is_ref :: "jtype \<Rightarrow> bool" where
  "is_ref (JRef n) = True"
| "is_ref _ = False"

fun is_floating :: "jtype \<Rightarrow> bool" where
  "is_floating JFloat = True"
| "is_floating JDouble = True"
| "is_floating _ = False"

text \<open>The static type of a value; a reference returned by the runtime is a \<^verbatim>\<open>jobject\<close>.\<close>

fun type_of :: "jvalue \<Rightarrow> jtype" where
  "type_of VVoid = JVoid"
| "type_of (VBoolean b) = JBoolean"
| "type_of (VByte b) = JByte"
| "type_of (VChar c) = JChar"
| "type_of (VShort s) = JShort"
| "type_of (VInt i) = JInt"
| "type_of (VLong l) = JLong"
| "type_of (VFloat f) = JFloat"
| "type_of (VDouble d) = JDouble"
| "type_of (VRef h) = JRef ''jobject''"

fun integral_value :: "jvalue \<Rightarrow> int option" where
  "integral_value (VBoolean b) = Some (uint b)"
| "integral_value (VByte b) = Some (sint b)"
| "integral_value (VChar c) = Some (uint c)"
| "integral_value (VShort s) = Some (sint s)"
| "integral_value (VInt i) = Some (sint i)"
| "integral_value (VLong l) = Some (sint l)"
| "integral_value _ = None"

fun of_integral :: "jtype \<Rightarrow> int \<Rightarrow> jvalue option" where
  "of_integral JBoolean i = Some (VBoolean (word_of_int i))"
| "of_integral JByte i = Some (VByte (word_of_int i))"
| "of_integral JChar i = Some (VChar (word_of_int i))"
| "of_integral JShort i = Some (VShort (word_of_int i))"
| "of_integral JInt i = Some (VInt (word_of_int i))"
| "of_integral JLong i = Some (VLong (word_of_int i))"
| "of_integral _ i = None"

text \<open>
  \<^verbatim>\<open>static_cast<T>(v)\<close>. \<open>None\<close> is a cast the compiler rejects (between a pointer and
  an arithmetic type, or from \<^verbatim>\<open>void\<close> to anything else): an instantiation that needs
  one is not a program. A cast to \<^verbatim>\<open>void\<close> discards the value, a cast between reference
  types keeps the handle, a cast to the value's own type keeps the value, a cast between
  integer types reduces modulo the width of the target, and a cast to or from a
  floating-point type is the implementation's conversion.
\<close>

definition static_cast :: "(jtype \<Rightarrow> jvalue \<Rightarrow> jvalue) \<Rightarrow> jtype \<Rightarrow> jvalue \<Rightarrow> jvalue option" where
  "static_cast fp T v =
     (if T = JVoid then Some VVoid
      else if type_of v = JVoid then None
      else if is_ref T \<and> is_ref (type_of v) then Some v
      else if is_ref T \<or> is_ref (type_of v) then None
      else if T = type_of v then Some v
      else if is_floating T \<or> is_floating (type_of v) then Some (fp T v)
      else Option.bind (integral_value v) (of_integral T))"


section \<open>StaticCaller\<close>

text \<open>
  \<^verbatim>\<open>StaticCaller<ReturnType, ArgumentTypes...>::call\<close>: the primary template and its six
  partial specialisations. The specialisation whose first argument is the given type is
  chosen, and the primary template when there is none. Each body is one call of the
  environment, which forwards the class, the method and the arguments.
\<close>

fun StaticCaller_call ::
  "jtype \<Rightarrow> 'w JNIEnv \<Rightarrow> jclass \<Rightarrow> jmethodID \<Rightarrow> jvalue list \<Rightarrow> 'w \<Rightarrow> jvalue \<times> event list \<times> 'w" where
  "StaticCaller_call JVoid env javaClass javaMethod arguments w =
     (VVoid, [ECall VoidMethod javaClass javaMethod arguments],
      CallStaticVoidMethod env javaClass javaMethod arguments w)"
| "StaticCaller_call JBoolean env javaClass javaMethod arguments w =
     (case CallStaticBooleanMethod env javaClass javaMethod arguments w of
        (r, w') \<Rightarrow> (VBoolean r, [ECall BooleanMethod javaClass javaMethod arguments], w'))"
| "StaticCaller_call JInt env javaClass javaMethod arguments w =
     (case CallStaticIntMethod env javaClass javaMethod arguments w of
        (r, w') \<Rightarrow> (VInt r, [ECall IntMethod javaClass javaMethod arguments], w'))"
| "StaticCaller_call JLong env javaClass javaMethod arguments w =
     (case CallStaticLongMethod env javaClass javaMethod arguments w of
        (r, w') \<Rightarrow> (VLong r, [ECall LongMethod javaClass javaMethod arguments], w'))"
| "StaticCaller_call JFloat env javaClass javaMethod arguments w =
     (case CallStaticFloatMethod env javaClass javaMethod arguments w of
        (r, w') \<Rightarrow> (VFloat r, [ECall FloatMethod javaClass javaMethod arguments], w'))"
| "StaticCaller_call JDouble env javaClass javaMethod arguments w =
     (case CallStaticDoubleMethod env javaClass javaMethod arguments w of
        (r, w') \<Rightarrow> (VDouble r, [ECall DoubleMethod javaClass javaMethod arguments], w'))"
| "StaticCaller_call other env javaClass javaMethod arguments w =
     (case CallStaticObjectMethod env javaClass javaMethod arguments w of
        (r, w') \<Rightarrow> (VRef r, [ECall ObjectMethod javaClass javaMethod arguments], w'))"


section \<open>callStaticMethod\<close>

text \<open>
  What one call leaves behind: the value returned (\<open>None\<close> when the instantiation needs a
  cast the compiler rejects), the calls made in program order, and the runtime's state.
\<close>

record 'w outcome =
  result :: "jvalue option"
  events :: "event list"
  world_after :: 'w

text \<open>
  \<^verbatim>\<open>callStaticMethod<ReturnType, ArgumentTypes...>(className, methodName, arguments...)\<close>.
\<close>

definition callStaticMethod ::
  "('c, 'w) externals \<Rightarrow> 'c \<Rightarrow> 'c list \<Rightarrow> string \<Rightarrow> string \<Rightarrow> jvalue list \<Rightarrow> 'w \<Rightarrow> 'w outcome" where
  "callStaticMethod ext ReturnType ArgumentTypes className_arg methodName arguments w =
     (let RealReturnType = ToJavaType_Type ext ReturnType;
          (env, w0) = getCurrentJNIEnvironment ext w;
          methodSignature = getJavaMethodSignature ext ReturnType ArgumentTypes;
          pre = [EGetCurrentJNIEnvironment, EGetJavaMethodSignature methodSignature,
                 EFindClass (c_str className_arg)]
      in (case FindClass env (c_str className_arg) w0 of
            (None, w1) \<Rightarrow>
              (let msg = ''class not found ['' @ className_arg @ '']''
               in \<lparr>result = Some (default_value RealReturnType),
                   events = pre @ [EReportInternalError msg],
                   world_after = reportInternalError ext msg w1\<rparr>)
          | (Some javaClass, w1) \<Rightarrow>
              (let lookup = EGetStaticMethodID javaClass (c_str methodName) (c_str methodSignature)
               in (case GetStaticMethodID env javaClass (c_str methodName) (c_str methodSignature) w1 of
                     (None, w2) \<Rightarrow>
                       (let msg = ''method ['' @ methodName @ ''] for class ['' @ className_arg
                                  @ ''] not found, tried signature ['' @ methodSignature @ '']''
                        in \<lparr>result = Some (default_value RealReturnType),
                            events = pre @ [lookup, EReportInternalError msg],
                            world_after = reportInternalError ext msg w2\<rparr>)
                   | (Some javaMethod, w2) \<Rightarrow>
                       (case StaticCaller_call (ToJavaType_CallReturnType ext ReturnType)
                               env javaClass javaMethod arguments w2 of
                          (v, called, w3) \<Rightarrow>
                            \<lparr>result = static_cast (fp_convert ext) RealReturnType v,
                             events = pre @ [lookup] @ called,
                             world_after = w3\<rparr>)))))"

text \<open>
  The overload
  \<^verbatim>\<open>callStaticMethod<JavaClassType, ReturnType, ArgumentTypes...>(methodName, arguments...)\<close>.
\<close>

definition callStaticMethod_JavaClassType ::
  "('c, 'w) externals \<Rightarrow> 'c \<Rightarrow> 'c \<Rightarrow> 'c list \<Rightarrow> string \<Rightarrow> jvalue list \<Rightarrow> 'w \<Rightarrow> 'w outcome" where
  "callStaticMethod_JavaClassType ext JavaClassType ReturnType ArgumentTypes methodName arguments w =
     callStaticMethod ext ReturnType ArgumentTypes (className ext JavaClassType) methodName arguments w"

section \<open>The call variants by name\<close>

text \<open>
  What each of the seven names stands for in \<^verbatim>\<open>jni.h\<close>: the function of the
  environment with that name, its result read as a value of its return type.
\<close>

fun run_variant ::
  "call_variant \<Rightarrow> 'w JNIEnv \<Rightarrow> jclass \<Rightarrow> jmethodID \<Rightarrow> jvalue list \<Rightarrow> 'w \<Rightarrow> jvalue \<times> 'w" where
  "run_variant ObjectMethod env c m as w = apfst VRef (CallStaticObjectMethod env c m as w)"
| "run_variant VoidMethod env c m as w = (VVoid, CallStaticVoidMethod env c m as w)"
| "run_variant BooleanMethod env c m as w = apfst VBoolean (CallStaticBooleanMethod env c m as w)"
| "run_variant IntMethod env c m as w = apfst VInt (CallStaticIntMethod env c m as w)"
| "run_variant LongMethod env c m as w = apfst VLong (CallStaticLongMethod env c m as w)"
| "run_variant FloatMethod env c m as w = apfst VFloat (CallStaticFloatMethod env c m as w)"
| "run_variant DoubleMethod env c m as w = apfst VDouble (CallStaticDoubleMethod env c m as w)"

section \<open>A small runtime to evaluate on\<close>

text \<open>
  Modelled from the spec: the type table \<^verbatim>\<open>ToJavaType\<close> and the signature builder
  \<^verbatim>\<open>getJavaMethodSignature\<close>, whose headers are not among the sources. The table has the
  kinds the specification lists (void, boolean, integer, long, float, double, object):
  the six primitive kinds map to their JNI types, every class to \<^verbatim>\<open>jobject\<close>, and the
  type called with is the type returned. The signature is written in the JNI's grammar,
  \<^verbatim>\<open>(arguments)return\<close>. They are used for evaluation at concrete inputs only.
\<close>

datatype cpp_type = CppVoid | CppBool | CppInt | CppLong | CppFloat | CppDouble | CppClass string

fun table_Type :: "cpp_type \<Rightarrow> jtype" where
  "table_Type CppVoid = JVoid"
| "table_Type CppBool = JBoolean"
| "table_Type CppInt = JInt"
| "table_Type CppLong = JLong"
| "table_Type CppFloat = JFloat"
| "table_Type CppDouble = JDouble"
| "table_Type (CppClass n) = JRef ''jobject''"

fun signature_code :: "cpp_type \<Rightarrow> string" where
  "signature_code CppVoid = ''V''"
| "signature_code CppBool = ''Z''"
| "signature_code CppInt = ''I''"
| "signature_code CppLong = ''J''"
| "signature_code CppFloat = ''F''"
| "signature_code CppDouble = ''D''"
| "signature_code (CppClass n) = ''L'' @ n @ '';''"

definition table_signature :: "cpp_type \<Rightarrow> cpp_type list \<Rightarrow> string" where
  "table_signature r as = ''('' @ concat (map signature_code as) @ '')'' @ signature_code r"

fun table_className :: "cpp_type \<Rightarrow> string" where
  "table_className (CppClass n) = n"
| "table_className other = []"

text \<open>
  A runtime with one class, \<^verbatim>\<open>com/example/Calc\<close>, and three static methods:
  \<^verbatim>\<open>int sum(int, int)\<close>, \<^verbatim>\<open>Calc make(double)\<close> and \<^verbatim>\<open>void reset()\<close>. Every class
  lookup and every object returned takes a fresh reference number; the error reporter
  appends the message to a list.
\<close>

record vm =
  next_ref :: nat
  diagnostics :: "string list"

definition test_env :: "vm JNIEnv" where
  "test_env =
     \<lparr>FindClass = (\<lambda>name s.
        if name = ''com/example/Calc''
        then (Some (next_ref s), s\<lparr>next_ref := Suc (next_ref s)\<rparr>) else (None, s)),
      GetStaticMethodID = (\<lambda>c name sig s.
        if name = ''sum'' \<and> sig = ''(II)I'' then (Some 7, s)
        else if name = ''make'' \<and> sig = ''(D)Lcom/example/Calc;'' then (Some 8, s)
        else if name = ''reset'' \<and> sig = ''()V'' then (Some 9, s)
        else (None, s)),
      CallStaticObjectMethod = (\<lambda>c m as s.
        (Some (next_ref s), s\<lparr>next_ref := Suc (next_ref s)\<rparr>)),
      CallStaticVoidMethod = (\<lambda>c m as s. s),
      CallStaticBooleanMethod = (\<lambda>c m as s. (1, s)),
      CallStaticIntMethod = (\<lambda>c m as s.
        (case as of [VInt a, VInt b] \<Rightarrow> a + b | _ \<Rightarrow> 0, s)),
      CallStaticLongMethod = (\<lambda>c m as s. (0, s)),
      CallStaticFloatMethod = (\<lambda>c m as s. (0, s)),
      CallStaticDoubleMethod = (\<lambda>c m as s. (0, s))\<rparr>"

definition test_ext :: "(cpp_type, vm) externals" where
  "test_ext =
     \<lparr>getCurrentJNIEnvironment = (\<lambda>s. (test_env, s)),
      getJavaMethodSignature = table_signature,
      reportInternalError = (\<lambda>msg s. s\<lparr>diagnostics := diagnostics s @ [msg]\<rparr>),
      ToJavaType_Type = table_Type,
      ToJavaType_CallReturnType = table_Type,
      className = table_className,
      fp_convert = (\<lambda>T v. default_value T)\<rparr>"

definition vm0 :: vm where
  "vm0 = \<lparr>next_ref = 1, diagnostics = []\<rparr>"





lemmas test_defs =
  test_ext_def test_env_def vm0_def table_signature_def c_str_def

section \<open>The three ways through callStaticMethod\<close>

lemma callStaticMethod_class_not_found:
  assumes "getCurrentJNIEnvironment ext w = (env, w0)"
      and "FindClass env (c_str cn) w0 = (None, w1)"
  shows "callStaticMethod ext rt ats cn mn args w =
           \<lparr>result = Some (default_value (ToJavaType_Type ext rt)),
            events = [EGetCurrentJNIEnvironment,
                      EGetJavaMethodSignature (getJavaMethodSignature ext rt ats),
                      EFindClass (c_str cn),
                      EReportInternalError (''class not found ['' @ cn @ '']'')],
            world_after = reportInternalError ext (''class not found ['' @ cn @ '']'') w1\<rparr>"
  using assms by (simp add: callStaticMethod_def Let_def)

lemma callStaticMethod_method_not_found:
  assumes "getCurrentJNIEnvironment ext w = (env, w0)"
      and "FindClass env (c_str cn) w0 = (Some c, w1)"
      and "GetStaticMethodID env c (c_str mn) (c_str (getJavaMethodSignature ext rt ats)) w1
             = (None, w2)"
  shows "callStaticMethod ext rt ats cn mn args w =
           \<lparr>result = Some (default_value (ToJavaType_Type ext rt)),
            events = [EGetCurrentJNIEnvironment,
                      EGetJavaMethodSignature (getJavaMethodSignature ext rt ats),
                      EFindClass (c_str cn),
                      EGetStaticMethodID c (c_str mn) (c_str (getJavaMethodSignature ext rt ats)),
                      EReportInternalError
                        (''method ['' @ mn @ ''] for class ['' @ cn
                         @ ''] not found, tried signature [''
                         @ getJavaMethodSignature ext rt ats @ '']'')],
            world_after = reportInternalError ext
                        (''method ['' @ mn @ ''] for class ['' @ cn
                         @ ''] not found, tried signature [''
                         @ getJavaMethodSignature ext rt ats @ '']'') w2\<rparr>"
  using assms by (simp add: callStaticMethod_def Let_def)

lemma callStaticMethod_resolved:
  assumes "getCurrentJNIEnvironment ext w = (env, w0)"
      and "FindClass env (c_str cn) w0 = (Some c, w1)"
      and "GetStaticMethodID env c (c_str mn) (c_str (getJavaMethodSignature ext rt ats)) w1
             = (Some m, w2)"
      and "StaticCaller_call (ToJavaType_CallReturnType ext rt) env c m args w2 = (v, called, w3)"
  shows "callStaticMethod ext rt ats cn mn args w =
           \<lparr>result = static_cast (fp_convert ext) (ToJavaType_Type ext rt) v,
            events = [EGetCurrentJNIEnvironment,
                      EGetJavaMethodSignature (getJavaMethodSignature ext rt ats),
                      EFindClass (c_str cn),
                      EGetStaticMethodID c (c_str mn) (c_str (getJavaMethodSignature ext rt ats))]
                     @ called,
            world_after = w3\<rparr>"
  using assms by (simp add: callStaticMethod_def Let_def)

lemma StaticCaller_call_one_call:
  "\<exists>v. fst (snd (StaticCaller_call k env c m args w)) = [ECall v c m args]"
  by (cases k) (auto split: prod.splits)


lemma StaticCaller_call_primary:
  assumes "k \<notin> {JVoid, JBoolean, JInt, JLong, JFloat, JDouble}"
  shows "StaticCaller_call k env c m args w =
           (VRef (fst (CallStaticObjectMethod env c m args w)),
            [ECall ObjectMethod c m args],
            snd (CallStaticObjectMethod env c m args w))"
  using assms by (cases k) (auto split: prod.splits)



text \<open>
  Where the types differ the cast is a conversion: from a \<^verbatim>\<open>jobject\<close> to an arithmetic
  type it is rejected, from \<^verbatim>\<open>jlong\<close> to \<^verbatim>\<open>jint\<close> it keeps the low 32 bits, and to
  \<^verbatim>\<open>void\<close> it drops the value.
\<close>

lemma static_cast_ref_to_arithmetic:
  assumes "\<not> is_ref T" and "T \<noteq> JVoid"
  shows "static_cast fp T (VRef h) = None"
  using assms by (simp add: static_cast_def)

lemma static_cast_can_narrow:
  "static_cast fp JInt (VLong 4294967296) = Some (VInt 0)"
  by (simp add: static_cast_def)

lemma static_cast_can_discard:
  "static_cast fp JVoid (VInt 7) = Some VVoid"
  by (simp add: static_cast_def)



lemma StaticCaller_call_run_variant:
  "StaticCaller_call k env c m args w =
     (let variant =
        (if k = JVoid then VoidMethod else if k = JBoolean then BooleanMethod
         else if k = JInt then IntMethod else if k = JLong then LongMethod
         else if k = JFloat then FloatMethod else if k = JDouble then DoubleMethod
         else ObjectMethod)
      in (fst (run_variant variant env c m args w), [ECall variant c m args],
          snd (run_variant variant env c m args w)))"
  by (cases k) (auto split: prod.splits)

lemma StaticCaller_call_some_variant:
  "\<exists>x. StaticCaller_call k env c m args w =
         (fst (run_variant x env c m args w), [ECall x c m args],
          snd (run_variant x env c m args w))"
  unfolding StaticCaller_call_run_variant Let_def by blast






section \<open>The claims\<close>

text \<open>
  C1. The type \<^verbatim>\<open>ToJavaType<ReturnType>::CallReturnType\<close> selects one call variant
  from the fixed table: void gives \<^verbatim>\<open>CallStaticVoidMethod\<close>, boolean
  \<^verbatim>\<open>CallStaticBooleanMethod\<close>, int \<^verbatim>\<open>CallStaticIntMethod\<close>, long
  \<^verbatim>\<open>CallStaticLongMethod\<close>, float \<^verbatim>\<open>CallStaticFloatMethod\<close>, double
  \<^verbatim>\<open>CallStaticDoubleMethod\<close>, and every other type \<^verbatim>\<open>CallStaticObjectMethod\<close>. The
  choice depends on that type alone. When the class and the method resolve, that variant
  and no other is called, once, with the resolved class, the resolved method and the
  arguments as given; the value and the runtime state of the call are the ones that
  function of the environment returns.
\<close>

theorem C1_variant_by_return_type:
  assumes "getCurrentJNIEnvironment ext w = (env, w0)"
      and "FindClass env (c_str cn) w0 = (Some c, w1)"
      and "GetStaticMethodID env c (c_str mn) (c_str (getJavaMethodSignature ext rt ats)) w1
             = (Some m, w2)"
  shows "let k = ToJavaType_CallReturnType ext rt;
             variant =
               (if k = JVoid then VoidMethod else if k = JBoolean then BooleanMethod
                else if k = JInt then IntMethod else if k = JLong then LongMethod
                else if k = JFloat then FloatMethod else if k = JDouble then DoubleMethod
                else ObjectMethod);
             out = callStaticMethod ext rt ats cn mn args w
         in filter is_ECall (events out) = [ECall variant c m args] \<and>
            result out = static_cast (fp_convert ext) (ToJavaType_Type ext rt)
                           (fst (run_variant variant env c m args w2)) \<and>
            world_after out = snd (run_variant variant env c m args w2)"
proof -
  obtain v called w3 where run:
    "StaticCaller_call (ToJavaType_CallReturnType ext rt) env c m args w2 = (v, called, w3)"
    by (cases "StaticCaller_call (ToJavaType_CallReturnType ext rt) env c m args w2")
  show ?thesis
    using run unfolding callStaticMethod_resolved [OF assms run]
    by (auto simp: StaticCaller_call_run_variant Let_def)
qed

text \<open>
  C1 at \<^verbatim>\<open>callStaticMethod<int, int, int>("com/example/Calc", "sum", 4, 5)\<close>.
\<close>

theorem C1_variant_by_return_type_witness:
  "getCurrentJNIEnvironment test_ext vm0 = (test_env, vm0) \<and>
   FindClass test_env (c_str ''com/example/Calc'') vm0 = (Some 1, vm0\<lparr>next_ref := 2\<rparr>) \<and>
   GetStaticMethodID test_env 1 (c_str ''sum'') (c_str ''(II)I'') (vm0\<lparr>next_ref := 2\<rparr>)
     = (Some 7, vm0\<lparr>next_ref := 2\<rparr>) \<and>
   filter is_ECall
     (events (callStaticMethod test_ext CppInt [CppInt, CppInt] ''com/example/Calc'' ''sum''
                [VInt 4, VInt 5] vm0)) = [ECall IntMethod 1 7 [VInt 4, VInt 5]] \<and>
   result (callStaticMethod test_ext CppInt [CppInt, CppInt] ''com/example/Calc'' ''sum''
             [VInt 4, VInt 5] vm0) = Some (VInt 9) \<and>
   world_after (callStaticMethod test_ext CppInt [CppInt, CppInt] ''com/example/Calc'' ''sum''
                  [VInt 4, VInt 5] vm0) = vm0\<lparr>next_ref := 2\<rparr>"
proof -
  have env: "getCurrentJNIEnvironment test_ext vm0 = (test_env, vm0)"
    by (simp add: test_defs)
  have sig: "getJavaMethodSignature test_ext CppInt [CppInt, CppInt] = ''(II)I''"
    by (simp add: test_defs)
  have cls: "FindClass test_env (c_str ''com/example/Calc'') vm0 = (Some 1, vm0\<lparr>next_ref := 2\<rparr>)"
    by (simp add: test_defs)
  have mth: "GetStaticMethodID test_env 1 (c_str ''sum'') (c_str ''(II)I'') (vm0\<lparr>next_ref := 2\<rparr>)
               = (Some 7, vm0\<lparr>next_ref := 2\<rparr>)"
    by (simp add: test_defs)
  have mth': "GetStaticMethodID test_env 1 (c_str ''sum'')
                (c_str (getJavaMethodSignature test_ext CppInt [CppInt, CppInt]))
                (vm0\<lparr>next_ref := 2\<rparr>) = (Some 7, vm0\<lparr>next_ref := 2\<rparr>)"
    using mth sig by simp
  have k: "ToJavaType_CallReturnType test_ext CppInt = JInt"
          "ToJavaType_Type test_ext CppInt = JInt"
    by (simp_all add: test_ext_def)
  have call: "CallStaticIntMethod test_env 1 7 [VInt 4, VInt 5] (vm0\<lparr>next_ref := 2\<rparr>)
                = (9, vm0\<lparr>next_ref := 2\<rparr>)"
    by (simp add: test_env_def)
  have "filter is_ECall
     (events (callStaticMethod test_ext CppInt [CppInt, CppInt] ''com/example/Calc'' ''sum''
                [VInt 4, VInt 5] vm0)) = [ECall IntMethod 1 7 [VInt 4, VInt 5]] \<and>
   result (callStaticMethod test_ext CppInt [CppInt, CppInt] ''com/example/Calc'' ''sum''
             [VInt 4, VInt 5] vm0) = Some (VInt 9) \<and>
   world_after (callStaticMethod test_ext CppInt [CppInt, CppInt] ''com/example/Calc'' ''sum''
                  [VInt 4, VInt 5] vm0) = vm0\<lparr>next_ref := 2\<rparr>"
    using C1_variant_by_return_type [OF env cls mth', of "[VInt 4, VInt 5]"] k call
    by (simp add: Let_def static_cast_def)
  with env cls mth show ?thesis by simp
qed

text \<open>
  C2. A call fails in exactly two ways: the class lookup answers null, or it answers a
  class and the method lookup with the computed signature answers null. In both the
  error reporter is called once with a diagnostic and the value-initialised
  \<^verbatim>\<open>RealReturnType()\<close> is returned. In the one remaining case, where both lookups answer,
  nothing is reported and the result of the call variant, cast to the return type, is
  returned.
\<close>

theorem C2_two_failure_conditions:
  assumes "getCurrentJNIEnvironment ext w = (env, w0)"
  shows "case FindClass env (c_str cn) w0 of
           (None, w1) \<Rightarrow>
             result (callStaticMethod ext rt ats cn mn args w) =
               Some (default_value (ToJavaType_Type ext rt)) \<and>
             filter is_EReport (events (callStaticMethod ext rt ats cn mn args w)) =
               [EReportInternalError (''class not found ['' @ cn @ '']'')] \<and>
             world_after (callStaticMethod ext rt ats cn mn args w) =
               reportInternalError ext (''class not found ['' @ cn @ '']'') w1
         | (Some c, w1) \<Rightarrow>
             (case GetStaticMethodID env c (c_str mn)
                     (c_str (getJavaMethodSignature ext rt ats)) w1 of
                (None, w2) \<Rightarrow>
                  result (callStaticMethod ext rt ats cn mn args w) =
                    Some (default_value (ToJavaType_Type ext rt)) \<and>
                  filter is_EReport (events (callStaticMethod ext rt ats cn mn args w)) =
                    [EReportInternalError
                       (''method ['' @ mn @ ''] for class ['' @ cn
                        @ ''] not found, tried signature [''
                        @ getJavaMethodSignature ext rt ats @ '']'')] \<and>
                  world_after (callStaticMethod ext rt ats cn mn args w) =
                    reportInternalError ext
                       (''method ['' @ mn @ ''] for class ['' @ cn
                        @ ''] not found, tried signature [''
                        @ getJavaMethodSignature ext rt ats @ '']'') w2
              | (Some m, w2) \<Rightarrow>
                  result (callStaticMethod ext rt ats cn mn args w) =
                    static_cast (fp_convert ext) (ToJavaType_Type ext rt)
                      (fst (StaticCaller_call (ToJavaType_CallReturnType ext rt)
                              env c m args w2)) \<and>
                  filter is_EReport (events (callStaticMethod ext rt ats cn mn args w)) = [] \<and>
                  world_after (callStaticMethod ext rt ats cn mn args w) =
                    snd (snd (StaticCaller_call (ToJavaType_CallReturnType ext rt)
                                env c m args w2)))"
proof -
  obtain oc w1 where cls: "FindClass env (c_str cn) w0 = (oc, w1)"
    by (cases "FindClass env (c_str cn) w0")
  show ?thesis
  proof (cases oc)
    case None
    with assms cls show ?thesis
      by (simp add: callStaticMethod_class_not_found)
  next
    case (Some c)
    obtain om w2 where mth:
      "GetStaticMethodID env c (c_str mn) (c_str (getJavaMethodSignature ext rt ats)) w1 = (om, w2)"
      by (cases "GetStaticMethodID env c (c_str mn) (c_str (getJavaMethodSignature ext rt ats)) w1")
    show ?thesis
    proof (cases om)
      case None
      with assms cls Some mth show ?thesis
        by (simp add: callStaticMethod_method_not_found)
    next
      case (Some m)
      obtain v called w3 where run:
        "StaticCaller_call (ToJavaType_CallReturnType ext rt) env c m args w2 = (v, called, w3)"
        by (cases "StaticCaller_call (ToJavaType_CallReturnType ext rt) env c m args w2")
      obtain x where "called = [ECall x c m args]"
        using StaticCaller_call_one_call [of "ToJavaType_CallReturnType ext rt" env c m args w2] run
        by auto
      with assms cls \<open>oc = Some c\<close> mth Some run show ?thesis
        by (simp add: callStaticMethod_resolved)
    qed
  qed
qed

text \<open>
  C2 at a method the test runtime does not have: the default \<^verbatim>\<open>jlong\<close> and one diagnostic.
\<close>

theorem C2_two_failure_conditions_witness:
  "getCurrentJNIEnvironment test_ext vm0 = (test_env, vm0) \<and>
   result (callStaticMethod test_ext CppLong [] ''com/example/Calc'' ''count'' [] vm0)
     = Some (VLong 0) \<and>
   filter is_EReport
     (events (callStaticMethod test_ext CppLong [] ''com/example/Calc'' ''count'' [] vm0)) =
     [EReportInternalError
        ''method [count] for class [com/example/Calc] not found, tried signature [()J]''] \<and>
   world_after (callStaticMethod test_ext CppLong [] ''com/example/Calc'' ''count'' [] vm0) =
     \<lparr>next_ref = 2, diagnostics =
        [''method [count] for class [com/example/Calc] not found, tried signature [()J]'']\<rparr>"
proof -
  have env: "getCurrentJNIEnvironment test_ext vm0 = (test_env, vm0)"
    by (simp add: test_defs)
  have sig: "getJavaMethodSignature test_ext CppLong [] = ''()J''"
    by (simp add: test_defs)
  have cls: "FindClass test_env (c_str ''com/example/Calc'') vm0 = (Some 1, vm0\<lparr>next_ref := 2\<rparr>)"
    by (simp add: test_defs)
  have mth: "GetStaticMethodID test_env 1 (c_str ''count'') (c_str ''()J'') (vm0\<lparr>next_ref := 2\<rparr>)
               = (None, vm0\<lparr>next_ref := 2\<rparr>)"
    by (simp add: test_defs)
  have T: "ToJavaType_Type test_ext CppLong = JLong"
    by (simp add: test_ext_def)
  have rep: "\<And>msg. reportInternalError test_ext msg (vm0\<lparr>next_ref := 2\<rparr>)
                 = \<lparr>next_ref = 2, diagnostics = [msg]\<rparr>"
    by (simp add: test_ext_def vm0_def)
  have "result (callStaticMethod test_ext CppLong [] ''com/example/Calc'' ''count'' [] vm0)
     = Some (VLong 0) \<and>
   filter is_EReport
     (events (callStaticMethod test_ext CppLong [] ''com/example/Calc'' ''count'' [] vm0)) =
     [EReportInternalError
        ''method [count] for class [com/example/Calc] not found, tried signature [()J]''] \<and>
   world_after (callStaticMethod test_ext CppLong [] ''com/example/Calc'' ''count'' [] vm0) =
     \<lparr>next_ref = 2, diagnostics =
        [''method [count] for class [com/example/Calc] not found, tried signature [()J]'']\<rparr>"
    using C2_two_failure_conditions [OF env, where cn = "''com/example/Calc''" and rt = CppLong
        and ats = "[]" and mn = "''count''" and args = "[]"]
      cls mth sig T rep
    by simp
  with env show ?thesis by simp
qed

text \<open>
  C3. When \<^verbatim>\<open>FindClass\<close> answers null the call stops there: the only calls made are the
  ones up to the class lookup and the report, whose message names the class, so neither
  \<^verbatim>\<open>GetStaticMethodID\<close> nor a Java call is performed, and the default value is
  returned. When the method lookup answers null, no Java call is performed either.
\<close>

theorem C3_short_circuit:
  assumes "getCurrentJNIEnvironment ext w = (env, w0)"
  shows "(\<forall>w1. FindClass env (c_str cn) w0 = (None, w1) \<longrightarrow>
            events (callStaticMethod ext rt ats cn mn args w) =
              [EGetCurrentJNIEnvironment,
               EGetJavaMethodSignature (getJavaMethodSignature ext rt ats),
               EFindClass (c_str cn),
               EReportInternalError (''class not found ['' @ cn @ '']'')] \<and>
            result (callStaticMethod ext rt ats cn mn args w) =
              Some (default_value (ToJavaType_Type ext rt))) \<and>
         (\<forall>c w1 w2. FindClass env (c_str cn) w0 = (Some c, w1) \<longrightarrow>
            GetStaticMethodID env c (c_str mn) (c_str (getJavaMethodSignature ext rt ats)) w1
              = (None, w2) \<longrightarrow>
            filter is_ECall (events (callStaticMethod ext rt ats cn mn args w)) = [] \<and>
            result (callStaticMethod ext rt ats cn mn args w) =
              Some (default_value (ToJavaType_Type ext rt)))"
  using assms
  by (auto simp: callStaticMethod_class_not_found callStaticMethod_method_not_found)

text \<open>
  C3 at a class the test runtime does not have, and at a method it does not have.
\<close>

theorem C3_short_circuit_witness:
  "getCurrentJNIEnvironment test_ext vm0 = (test_env, vm0) \<and>
   FindClass test_env (c_str ''com/example/Missing'') vm0 = (None, vm0) \<and>
   events (callStaticMethod test_ext CppInt [CppInt, CppInt] ''com/example/Missing'' ''sum''
             [VInt 4, VInt 5] vm0) =
     [EGetCurrentJNIEnvironment, EGetJavaMethodSignature ''(II)I'',
      EFindClass ''com/example/Missing'',
      EReportInternalError ''class not found [com/example/Missing]''] \<and>
   result (callStaticMethod test_ext CppInt [CppInt, CppInt] ''com/example/Missing'' ''sum''
             [VInt 4, VInt 5] vm0) = Some (VInt 0) \<and>
   FindClass test_env (c_str ''com/example/Calc'') vm0 = (Some 1, vm0\<lparr>next_ref := 2\<rparr>) \<and>
   GetStaticMethodID test_env 1 (c_str ''product'') (c_str ''(II)I'') (vm0\<lparr>next_ref := 2\<rparr>)
     = (None, vm0\<lparr>next_ref := 2\<rparr>) \<and>
   filter is_ECall
     (events (callStaticMethod test_ext CppInt [CppInt, CppInt] ''com/example/Calc'' ''product''
                [VInt 4, VInt 5] vm0)) = []"
proof -
  have env: "getCurrentJNIEnvironment test_ext vm0 = (test_env, vm0)"
    by (simp add: test_defs)
  have sig: "getJavaMethodSignature test_ext CppInt [CppInt, CppInt] = ''(II)I''"
    by (simp add: test_defs)
  have miss: "FindClass test_env (c_str ''com/example/Missing'') vm0 = (None, vm0)"
    by (simp add: test_defs)
  have cls: "FindClass test_env (c_str ''com/example/Calc'') vm0 = (Some 1, vm0\<lparr>next_ref := 2\<rparr>)"
    by (simp add: test_defs)
  have mth: "GetStaticMethodID test_env 1 (c_str ''product'') (c_str ''(II)I'') (vm0\<lparr>next_ref := 2\<rparr>)
               = (None, vm0\<lparr>next_ref := 2\<rparr>)"
    by (simp add: test_defs)
  note inst = C3_short_circuit [OF env, where rt = CppInt and ats = "[CppInt, CppInt]"
      and args = "[VInt 4, VInt 5]"]
  have a: "events (callStaticMethod test_ext CppInt [CppInt, CppInt] ''com/example/Missing'' ''sum''
             [VInt 4, VInt 5] vm0) =
     [EGetCurrentJNIEnvironment, EGetJavaMethodSignature ''(II)I'',
      EFindClass ''com/example/Missing'',
      EReportInternalError ''class not found [com/example/Missing]'']"
   and b: "result (callStaticMethod test_ext CppInt [CppInt, CppInt] ''com/example/Missing'' ''sum''
             [VInt 4, VInt 5] vm0) = Some (VInt 0)"
    using inst [of "''com/example/Missing''" "''sum''"] miss sig
    by (simp_all add: c_str_def test_ext_def)
  have c: "filter is_ECall
     (events (callStaticMethod test_ext CppInt [CppInt, CppInt] ''com/example/Calc'' ''product''
                [VInt 4, VInt 5] vm0)) = []"
    using inst [of "''com/example/Calc''" "''product''"] cls mth sig by simp
  from env miss a b cls mth c show ?thesis by simp
qed

text \<open>
  C4, as stated, at a class the test runtime does not have: the call builds the
  signature and looks the class up, and then reports and returns the default
  \<^verbatim>\<open>jint\<close>. The method is not resolved, no argument is forwarded and nothing is cast, so
  not every call goes through the five steps.
\<close>

theorem C4_steps_counterexample:
  "events (callStaticMethod test_ext CppInt [CppInt, CppInt] ''com/example/Missing'' ''sum''
             [VInt 4, VInt 5] vm0) =
     [EGetCurrentJNIEnvironment, EGetJavaMethodSignature ''(II)I'',
      EFindClass ''com/example/Missing'',
      EReportInternalError ''class not found [com/example/Missing]''] \<and>
   filter is_EGetStaticMethodID
     (events (callStaticMethod test_ext CppInt [CppInt, CppInt] ''com/example/Missing'' ''sum''
                [VInt 4, VInt 5] vm0)) = [] \<and>
   filter is_ECall
     (events (callStaticMethod test_ext CppInt [CppInt, CppInt] ''com/example/Missing'' ''sum''
                [VInt 4, VInt 5] vm0)) = [] \<and>
   result (callStaticMethod test_ext CppInt [CppInt, CppInt] ''com/example/Missing'' ''sum''
             [VInt 4, VInt 5] vm0) = Some (VInt 0)"
  by (simp add: callStaticMethod_def Let_def test_defs)

text \<open>
  C4, amended. Every call obtains the current JNI environment, builds the signature string
  from the return and argument types and resolves the class by name. When the class and
  the method resolve, the steps are exactly, in this order: environment, signature, class
  lookup, method lookup by name and signature, one forwarding call of a variant with the
  arguments, and the cast of its result to the return type, which is returned; the
  runtime is left as that call left it. When the class does not resolve, the call ends
  after the class lookup: the reporter is called with the diagnostic and the default
  value is returned. When the method does not resolve, it ends after the method lookup in
  the same way.
\<close>

theorem C4_steps_in_order:
  assumes "getCurrentJNIEnvironment ext w = (env, w0)"
  shows "case FindClass env (c_str cn) w0 of
           (None, w1) \<Rightarrow>
             events (callStaticMethod ext rt ats cn mn args w) =
               [EGetCurrentJNIEnvironment,
                EGetJavaMethodSignature (getJavaMethodSignature ext rt ats),
                EFindClass (c_str cn),
                EReportInternalError (''class not found ['' @ cn @ '']'')] \<and>
             world_after (callStaticMethod ext rt ats cn mn args w) =
               reportInternalError ext (''class not found ['' @ cn @ '']'') w1 \<and>
             result (callStaticMethod ext rt ats cn mn args w) =
               Some (default_value (ToJavaType_Type ext rt))
         | (Some c, w1) \<Rightarrow>
             (case GetStaticMethodID env c (c_str mn)
                     (c_str (getJavaMethodSignature ext rt ats)) w1 of
                (None, w2) \<Rightarrow>
                  events (callStaticMethod ext rt ats cn mn args w) =
                    [EGetCurrentJNIEnvironment,
                     EGetJavaMethodSignature (getJavaMethodSignature ext rt ats),
                     EFindClass (c_str cn),
                     EGetStaticMethodID c (c_str mn) (c_str (getJavaMethodSignature ext rt ats)),
                     EReportInternalError
                       (''method ['' @ mn @ ''] for class ['' @ cn
                        @ ''] not found, tried signature [''
                        @ getJavaMethodSignature ext rt ats @ '']'')] \<and>
                  world_after (callStaticMethod ext rt ats cn mn args w) =
                    reportInternalError ext
                       (''method ['' @ mn @ ''] for class ['' @ cn
                        @ ''] not found, tried signature [''
                        @ getJavaMethodSignature ext rt ats @ '']'') w2 \<and>
                  result (callStaticMethod ext rt ats cn mn args w) =
                    Some (default_value (ToJavaType_Type ext rt))
              | (Some m, w2) \<Rightarrow>
                  (\<exists>variant.
                     events (callStaticMethod ext rt ats cn mn args w) =
                       [EGetCurrentJNIEnvironment,
                        EGetJavaMethodSignature (getJavaMethodSignature ext rt ats),
                        EFindClass (c_str cn),
                        EGetStaticMethodID c (c_str mn)
                          (c_str (getJavaMethodSignature ext rt ats)),
                        ECall variant c m args] \<and>
                     world_after (callStaticMethod ext rt ats cn mn args w) =
                       snd (run_variant variant env c m args w2) \<and>
                     result (callStaticMethod ext rt ats cn mn args w) =
                       static_cast (fp_convert ext) (ToJavaType_Type ext rt)
                         (fst (run_variant variant env c m args w2))))"
proof -
  obtain oc w1 where cls: "FindClass env (c_str cn) w0 = (oc, w1)"
    by (cases "FindClass env (c_str cn) w0")
  show ?thesis
  proof (cases oc)
    case None
    with assms cls show ?thesis
      by (simp add: callStaticMethod_class_not_found)
  next
    case (Some c)
    obtain om w2 where mth:
      "GetStaticMethodID env c (c_str mn) (c_str (getJavaMethodSignature ext rt ats)) w1 = (om, w2)"
      by (cases "GetStaticMethodID env c (c_str mn) (c_str (getJavaMethodSignature ext rt ats)) w1")
    show ?thesis
    proof (cases om)
      case None
      with assms cls Some mth show ?thesis
        by (simp add: callStaticMethod_method_not_found)
    next
      case (Some m)
      obtain v called w3 where run:
        "StaticCaller_call (ToJavaType_CallReturnType ext rt) env c m args w2 = (v, called, w3)"
        by (cases "StaticCaller_call (ToJavaType_CallReturnType ext rt) env c m args w2")
      from run obtain x where "called = [ECall x c m args]"
        and "v = fst (run_variant x env c m args w2)"
        and "w3 = snd (run_variant x env c m args w2)"
        using StaticCaller_call_some_variant
                [of "ToJavaType_CallReturnType ext rt" env c m args w2]
        by auto
      with assms cls \<open>oc = Some c\<close> mth Some run show ?thesis
        by (auto simp: callStaticMethod_resolved)
    qed
  qed
qed

text \<open>
  C4, amended, at \<^verbatim>\<open>callStaticMethod<void>("com/example/Calc", "reset")\<close> and at the same
  call on a class the test runtime does not have.
\<close>

theorem C4_steps_in_order_witness:
  "getCurrentJNIEnvironment test_ext vm0 = (test_env, vm0) \<and>
   events (callStaticMethod test_ext CppVoid [] ''com/example/Calc'' ''reset'' [] vm0) =
     [EGetCurrentJNIEnvironment, EGetJavaMethodSignature ''()V'',
      EFindClass ''com/example/Calc'', EGetStaticMethodID 1 ''reset'' ''()V'',
      ECall VoidMethod 1 9 []] \<and>
   world_after (callStaticMethod test_ext CppVoid [] ''com/example/Calc'' ''reset'' [] vm0)
     = vm0\<lparr>next_ref := 2\<rparr> \<and>
   result (callStaticMethod test_ext CppVoid [] ''com/example/Calc'' ''reset'' [] vm0)
     = Some VVoid \<and>
   events (callStaticMethod test_ext CppVoid [] ''com/example/Missing'' ''reset'' [] vm0) =
     [EGetCurrentJNIEnvironment, EGetJavaMethodSignature ''()V'',
      EFindClass ''com/example/Missing'',
      EReportInternalError ''class not found [com/example/Missing]''] \<and>
   world_after (callStaticMethod test_ext CppVoid [] ''com/example/Missing'' ''reset'' [] vm0)
     = vm0\<lparr>diagnostics := [''class not found [com/example/Missing]'']\<rparr> \<and>
   result (callStaticMethod test_ext CppVoid [] ''com/example/Missing'' ''reset'' [] vm0)
     = Some VVoid"
proof -
  have env: "getCurrentJNIEnvironment test_ext vm0 = (test_env, vm0)"
    by (simp add: test_defs)
  have sig: "getJavaMethodSignature test_ext CppVoid [] = ''()V''"
    by (simp add: test_defs)
  have cls: "FindClass test_env (c_str ''com/example/Calc'') vm0 = (Some 1, vm0\<lparr>next_ref := 2\<rparr>)"
    by (simp add: test_defs)
  have miss: "FindClass test_env (c_str ''com/example/Missing'') vm0 = (None, vm0)"
    by (simp add: test_defs)
  have mth: "GetStaticMethodID test_env 1 (c_str ''reset'') (c_str ''()V'') (vm0\<lparr>next_ref := 2\<rparr>)
               = (Some 9, vm0\<lparr>next_ref := 2\<rparr>)"
    by (simp add: test_defs)
  have T: "ToJavaType_Type test_ext CppVoid = JVoid"
    by (simp add: test_ext_def)
  have rep: "\<And>msg. reportInternalError test_ext msg vm0 = vm0\<lparr>diagnostics := [msg]\<rparr>"
    by (simp add: test_ext_def vm0_def)
  have str: "c_str ''com/example/Calc'' = ''com/example/Calc''" "c_str ''reset'' = ''reset''"
      "c_str ''()V'' = ''()V''" "c_str ''com/example/Missing'' = ''com/example/Missing''"
    by (simp_all add: c_str_def)
  have ok: "events (callStaticMethod test_ext CppVoid [] ''com/example/Calc'' ''reset'' [] vm0) =
     [EGetCurrentJNIEnvironment, EGetJavaMethodSignature ''()V'',
      EFindClass ''com/example/Calc'', EGetStaticMethodID 1 ''reset'' ''()V'',
      ECall VoidMethod 1 9 []] \<and>
   world_after (callStaticMethod test_ext CppVoid [] ''com/example/Calc'' ''reset'' [] vm0)
     = vm0\<lparr>next_ref := 2\<rparr> \<and>
   result (callStaticMethod test_ext CppVoid [] ''com/example/Calc'' ''reset'' [] vm0)
     = Some VVoid"
  proof -
    from C4_steps_in_order [OF env, where cn = "''com/example/Calc''" and rt = CppVoid
        and ats = "[]" and mn = "''reset''" and args = "[]"] cls mth sig T
    obtain variant where
      ev: "events (callStaticMethod test_ext CppVoid [] ''com/example/Calc'' ''reset'' [] vm0) =
        [EGetCurrentJNIEnvironment, EGetJavaMethodSignature ''()V'',
         EFindClass (c_str ''com/example/Calc''),
         EGetStaticMethodID 1 (c_str ''reset'') (c_str ''()V''), ECall variant 1 9 []]"
      and wa: "world_after (callStaticMethod test_ext CppVoid [] ''com/example/Calc'' ''reset'' [] vm0)
        = snd (run_variant variant test_env 1 9 [] (vm0\<lparr>next_ref := 2\<rparr>))"
      and res: "result (callStaticMethod test_ext CppVoid [] ''com/example/Calc'' ''reset'' [] vm0)
        = static_cast (fp_convert test_ext) JVoid
            (fst (run_variant variant test_env 1 9 [] (vm0\<lparr>next_ref := 2\<rparr>)))"
      by auto
    have "filter is_ECall
            (events (callStaticMethod test_ext CppVoid [] ''com/example/Calc'' ''reset'' [] vm0))
          = [ECall VoidMethod 1 9 []]"
      by (simp add: callStaticMethod_def Let_def test_defs)
    with ev have "variant = VoidMethod" by simp
    with ev wa res str show ?thesis by (simp add: static_cast_def test_env_def)
  qed
  have bad: "events (callStaticMethod test_ext CppVoid [] ''com/example/Missing'' ''reset'' [] vm0) =
     [EGetCurrentJNIEnvironment, EGetJavaMethodSignature ''()V'',
      EFindClass ''com/example/Missing'',
      EReportInternalError ''class not found [com/example/Missing]''] \<and>
   world_after (callStaticMethod test_ext CppVoid [] ''com/example/Missing'' ''reset'' [] vm0)
     = vm0\<lparr>diagnostics := [''class not found [com/example/Missing]'']\<rparr> \<and>
   result (callStaticMethod test_ext CppVoid [] ''com/example/Missing'' ''reset'' [] vm0)
     = Some VVoid"
    using C4_steps_in_order [OF env, where cn = "''com/example/Missing''" and rt = CppVoid
        and ats = "[]" and mn = "''reset''" and args = "[]"] miss sig T rep str
    by simp
  from env ok bad show ?thesis by simp
qed




text \<open>
  C6. No retries: in every call the class is looked up exactly once, the method at most
  once, at most one Java call is made and at most one diagnostic is reported. A lookup
  that failed is therefore not attempted again within the call.
\<close>

theorem C6_no_retries:
  "length (filter is_EFindClass (events (callStaticMethod ext rt ats cn mn args w))) = 1 \<and>
   length (filter is_EGetStaticMethodID (events (callStaticMethod ext rt ats cn mn args w))) \<le> 1 \<and>
   length (filter is_ECall (events (callStaticMethod ext rt ats cn mn args w))) \<le> 1 \<and>
   length (filter is_EReport (events (callStaticMethod ext rt ats cn mn args w))) \<le> 1"
proof -
  obtain env w0 where env: "getCurrentJNIEnvironment ext w = (env, w0)"
    by (cases "getCurrentJNIEnvironment ext w")
  obtain oc w1 where cls: "FindClass env (c_str cn) w0 = (oc, w1)"
    by (cases "FindClass env (c_str cn) w0")
  show ?thesis
  proof (cases oc)
    case None
    with env cls show ?thesis
      by (simp add: callStaticMethod_class_not_found)
  next
    case (Some c)
    obtain om w2 where mth:
      "GetStaticMethodID env c (c_str mn) (c_str (getJavaMethodSignature ext rt ats)) w1 = (om, w2)"
      by (cases "GetStaticMethodID env c (c_str mn) (c_str (getJavaMethodSignature ext rt ats)) w1")
    show ?thesis
    proof (cases om)
      case None
      with env cls Some mth show ?thesis
        by (simp add: callStaticMethod_method_not_found)
    next
      case (Some m)
      obtain v called w3 where run:
        "StaticCaller_call (ToJavaType_CallReturnType ext rt) env c m args w2 = (v, called, w3)"
        by (cases "StaticCaller_call (ToJavaType_CallReturnType ext rt) env c m args w2")
      obtain x where "called = [ECall x c m args]"
        using StaticCaller_call_one_call [of "ToJavaType_CallReturnType ext rt" env c m args w2] run
        by auto
      with env cls \<open>oc = Some c\<close> mth Some run show ?thesis
        by (simp add: callStaticMethod_resolved)
    qed
  qed
qed




text \<open>
  C8. When the method lookup fails, the signature handed to it is the string that
  \<^verbatim>\<open>getJavaMethodSignature\<close> builds from the return type and the argument types alone; it
  is built before the class lookup, the first lookup of the call; and the diagnostic
  holds the method name, the class name and that signature.
\<close>

theorem C8_signature_in_lookup_and_message:
  assumes "getCurrentJNIEnvironment ext w = (env, w0)"
      and "FindClass env (c_str cn) w0 = (Some c, w1)"
      and "GetStaticMethodID env c (c_str mn) (c_str (getJavaMethodSignature ext rt ats)) w1
             = (None, w2)"
  shows "let methodSignature = getJavaMethodSignature ext rt ats;
             message = ''method ['' @ mn @ ''] for class ['' @ cn
                       @ ''] not found, tried signature ['' @ methodSignature @ '']''
         in events (callStaticMethod ext rt ats cn mn args w) =
              [EGetCurrentJNIEnvironment,
               EGetJavaMethodSignature methodSignature,
               EFindClass (c_str cn),
               EGetStaticMethodID c (c_str mn) (c_str methodSignature),
               EReportInternalError message] \<and>
            world_after (callStaticMethod ext rt ats cn mn args w) =
              reportInternalError ext message w2"
  unfolding callStaticMethod_method_not_found [OF assms] by (simp add: Let_def)

text \<open>
  C8 at the method \<^verbatim>\<open>product\<close>, which the test runtime does not have.
\<close>

theorem C8_signature_in_lookup_and_message_witness:
  "getCurrentJNIEnvironment test_ext vm0 = (test_env, vm0) \<and>
   FindClass test_env (c_str ''com/example/Calc'') vm0 = (Some 1, vm0\<lparr>next_ref := 2\<rparr>) \<and>
   GetStaticMethodID test_env 1 (c_str ''product'') (c_str ''(II)I'') (vm0\<lparr>next_ref := 2\<rparr>)
     = (None, vm0\<lparr>next_ref := 2\<rparr>) \<and>
   events (callStaticMethod test_ext CppInt [CppInt, CppInt] ''com/example/Calc'' ''product''
             [VInt 4, VInt 5] vm0) =
     [EGetCurrentJNIEnvironment, EGetJavaMethodSignature ''(II)I'',
      EFindClass ''com/example/Calc'', EGetStaticMethodID 1 ''product'' ''(II)I'',
      EReportInternalError
        ''method [product] for class [com/example/Calc] not found, tried signature [(II)I]''] \<and>
   diagnostics (world_after (callStaticMethod test_ext CppInt [CppInt, CppInt]
                  ''com/example/Calc'' ''product'' [VInt 4, VInt 5] vm0)) =
     [''method [product] for class [com/example/Calc] not found, tried signature [(II)I]'']"
proof -
  have env: "getCurrentJNIEnvironment test_ext vm0 = (test_env, vm0)"
    by (simp add: test_defs)
  have sig: "getJavaMethodSignature test_ext CppInt [CppInt, CppInt] = ''(II)I''"
    by (simp add: test_defs)
  have cls: "FindClass test_env (c_str ''com/example/Calc'') vm0 = (Some 1, vm0\<lparr>next_ref := 2\<rparr>)"
    by (simp add: test_defs)
  have mth: "GetStaticMethodID test_env 1 (c_str ''product'') (c_str ''(II)I'') (vm0\<lparr>next_ref := 2\<rparr>)
               = (None, vm0\<lparr>next_ref := 2\<rparr>)"
    by (simp add: test_defs)
  have mth': "GetStaticMethodID test_env 1 (c_str ''product'')
                (c_str (getJavaMethodSignature test_ext CppInt [CppInt, CppInt]))
                (vm0\<lparr>next_ref := 2\<rparr>) = (None, vm0\<lparr>next_ref := 2\<rparr>)"
    using mth sig by simp
  have rep: "\<And>msg s. diagnostics (reportInternalError test_ext msg s) = diagnostics s @ [msg]"
    by (simp add: test_ext_def)
  have "events (callStaticMethod test_ext CppInt [CppInt, CppInt] ''com/example/Calc'' ''product''
             [VInt 4, VInt 5] vm0) =
     [EGetCurrentJNIEnvironment, EGetJavaMethodSignature ''(II)I'',
      EFindClass ''com/example/Calc'', EGetStaticMethodID 1 ''product'' ''(II)I'',
      EReportInternalError
        ''method [product] for class [com/example/Calc] not found, tried signature [(II)I]''] \<and>
   diagnostics (world_after (callStaticMethod test_ext CppInt [CppInt, CppInt]
                  ''com/example/Calc'' ''product'' [VInt 4, VInt 5] vm0)) =
     [''method [product] for class [com/example/Calc] not found, tried signature [(II)I]'']"
    using C8_signature_in_lookup_and_message [OF env cls mth', of "[VInt 4, VInt 5]"] sig rep
    by (simp add: Let_def c_str_def vm0_def)
  with env cls mth show ?thesis by simp
qed

text \<open>
  C9. The overload that takes the Java class as a template argument returns exactly what
  the primary overload returns when it is given \<^verbatim>\<open>JavaClassType::className()\<close> as the
  class name, for every class type, method name and argument list.
\<close>

theorem C9_class_typed_overload:
  "callStaticMethod_JavaClassType ext JavaClassType rt ats mn args w =
     callStaticMethod ext rt ats (className ext JavaClassType) mn args w"
  by (simp only: callStaticMethod_JavaClassType_def)

text \<open>
  C10. For every type that has no specialisation of \<^verbatim>\<open>StaticCaller\<close>, that is every type
  but void, \<^verbatim>\<open>jboolean\<close>, \<^verbatim>\<open>jint\<close>, \<^verbatim>\<open>jlong\<close>, \<^verbatim>\<open>jfloat\<close> and \<^verbatim>\<open>jdouble\<close> (so also
  \<^verbatim>\<open>jbyte\<close>, \<^verbatim>\<open>jchar\<close>, \<^verbatim>\<open>jshort\<close> and every class type), the primary template is
  chosen: the call goes to \<^verbatim>\<open>CallStaticObjectMethod\<close> and \<^verbatim>\<open>callStaticMethod\<close> returns
  its \<^verbatim>\<open>jobject\<close> result cast to the return type.
\<close>

theorem C10_primary_template:
  assumes "getCurrentJNIEnvironment ext w = (env, w0)"
      and "FindClass env (c_str cn) w0 = (Some c, w1)"
      and "GetStaticMethodID env c (c_str mn) (c_str (getJavaMethodSignature ext rt ats)) w1
             = (Some m, w2)"
      and "ToJavaType_CallReturnType ext rt \<notin> {JVoid, JBoolean, JInt, JLong, JFloat, JDouble}"
  shows "StaticCaller_call (ToJavaType_CallReturnType ext rt) env c m args w2 =
           (VRef (fst (CallStaticObjectMethod env c m args w2)),
            [ECall ObjectMethod c m args],
            snd (CallStaticObjectMethod env c m args w2)) \<and>
         filter is_ECall (events (callStaticMethod ext rt ats cn mn args w)) =
           [ECall ObjectMethod c m args] \<and>
         result (callStaticMethod ext rt ats cn mn args w) =
           static_cast (fp_convert ext) (ToJavaType_Type ext rt)
             (VRef (fst (CallStaticObjectMethod env c m args w2)))"
proof -
  note run = StaticCaller_call_primary [OF assms(4), of env c m args w2]
  show ?thesis
    unfolding callStaticMethod_resolved [OF assms(1-3) run] using run by simp
qed

text \<open>
  C10 at a method that returns an object of a class.
\<close>

theorem C10_primary_template_witness:
  "getCurrentJNIEnvironment test_ext vm0 = (test_env, vm0) \<and>
   FindClass test_env (c_str ''com/example/Calc'') vm0 = (Some 1, vm0\<lparr>next_ref := 2\<rparr>) \<and>
   GetStaticMethodID test_env 1 (c_str ''make'') (c_str ''(D)Lcom/example/Calc;'')
     (vm0\<lparr>next_ref := 2\<rparr>) = (Some 8, vm0\<lparr>next_ref := 2\<rparr>) \<and>
   ToJavaType_CallReturnType test_ext (CppClass ''com/example/Calc'') = JRef ''jobject'' \<and>
   filter is_ECall
     (events (callStaticMethod test_ext (CppClass ''com/example/Calc'') [CppDouble]
                ''com/example/Calc'' ''make'' [VDouble 5] vm0)) =
     [ECall ObjectMethod 1 8 [VDouble 5]] \<and>
   result (callStaticMethod test_ext (CppClass ''com/example/Calc'') [CppDouble]
             ''com/example/Calc'' ''make'' [VDouble 5] vm0) = Some (VRef (Some 2))"
proof -
  have env: "getCurrentJNIEnvironment test_ext vm0 = (test_env, vm0)"
    by (simp add: test_defs)
  have sig: "getJavaMethodSignature test_ext (CppClass ''com/example/Calc'') [CppDouble]
               = ''(D)Lcom/example/Calc;''"
    by (simp add: test_defs)
  have cls: "FindClass test_env (c_str ''com/example/Calc'') vm0 = (Some 1, vm0\<lparr>next_ref := 2\<rparr>)"
    by (simp add: test_defs)
  have mth: "GetStaticMethodID test_env 1 (c_str ''make'') (c_str ''(D)Lcom/example/Calc;'')
               (vm0\<lparr>next_ref := 2\<rparr>) = (Some 8, vm0\<lparr>next_ref := 2\<rparr>)"
    by (simp add: test_defs)
  have mth': "GetStaticMethodID test_env 1 (c_str ''make'')
                (c_str (getJavaMethodSignature test_ext (CppClass ''com/example/Calc'') [CppDouble]))
                (vm0\<lparr>next_ref := 2\<rparr>) = (Some 8, vm0\<lparr>next_ref := 2\<rparr>)"
    using mth sig by simp
  have k: "ToJavaType_CallReturnType test_ext (CppClass ''com/example/Calc'') = JRef ''jobject''"
          "ToJavaType_Type test_ext (CppClass ''com/example/Calc'') = JRef ''jobject''"
    by (simp_all add: test_ext_def)
  have prim: "ToJavaType_CallReturnType test_ext (CppClass ''com/example/Calc'')
                \<notin> {JVoid, JBoolean, JInt, JLong, JFloat, JDouble}"
    using k by simp
  have call: "CallStaticObjectMethod test_env 1 8 [VDouble 5] (vm0\<lparr>next_ref := 2\<rparr>)
                = (Some 2, vm0\<lparr>next_ref := 3\<rparr>)"
    by (simp add: test_env_def vm0_def)
  have "filter is_ECall
     (events (callStaticMethod test_ext (CppClass ''com/example/Calc'') [CppDouble]
                ''com/example/Calc'' ''make'' [VDouble 5] vm0)) =
     [ECall ObjectMethod 1 8 [VDouble 5]] \<and>
   result (callStaticMethod test_ext (CppClass ''com/example/Calc'') [CppDouble]
             ''com/example/Calc'' ''make'' [VDouble 5] vm0) = Some (VRef (Some 2))"
    using C10_primary_template [OF env cls mth' prim, of "[VDouble 5]"] k call
    by (simp add: static_cast_def)
  with env cls mth k show ?thesis by simp
qed

end
